theory Spec2Isabelle
  imports Complex_Main
begin

section \<open>The time-varying loudness pipeline \<open>tv2018\<close>\<close>

text \<open>
  This theory embeds the function \<open>tv2018\<close> of
  \<^verbatim>\<open>mosqito/sq_metrics/loudness/loudness_mgs/tv2018_scratch.py\<close>.

  Conventions of the embedding:
  \<^item> samples and loudness values are real numbers (rounding, infinities and NaN of IEEE
    floats are not modelled);
  \<^item> a raised exception is the \<open>Inl\<close> branch of a sum, a returned value the \<open>Inr\<close> branch;
  \<^item> what \<open>print\<close> writes is not modelled, but whatever can make a \<open>print\<close> raise is:
    the expressions it evaluates, and the encoding of the strings the caller supplies
    (the file name and the field type), which the console may not be able to encode;
    the fixed messages and the formatted numbers are plain ASCII;
  \<^item> the functions imported from \<open>mgsutils\<close> and \<open>scipy.signal.resample\<close> are not part of
    the sources: they are the fields of the record \<open>mgsutils\<close>, and every statement about
    \<open>tv2018\<close> holds for whatever these functions compute.
\<close>

subsection \<open>Exceptions\<close>

datatype cause =
  Pad_width          \<comment> \<open>\<open>np.pad\<close>: the pad widths do not broadcast to the array's dimensions\<close>
| Zero_size          \<comment> \<open>\<open>np.max\<close> of an array without elements\<close>
| Broadcast          \<comment> \<open>\<open>+\<close> on arrays whose shapes do not broadcast\<close>

datatype error =
  TypeError          \<comment> \<open>\<open>len\<close> of an array without dimensions\<close>
| ZeroDivisionError
| ValueError cause
| IndexError
| UnicodeEncodeError \<comment> \<open>\<open>print\<close> of a string the console's encoding cannot encode\<close>
| Raised string      \<comment> \<open>anything else a collaborator raises\<close>

fun andthen :: "error + 'a \<Rightarrow> ('a \<Rightarrow> error + 'b) \<Rightarrow> error + 'b" where
  "andthen (Inl e) f = Inl e"
| "andthen (Inr v) f = f v"

subsection \<open>Arrays\<close>

text \<open>
  The signal is a numpy array of any number of dimensions: its shape and its elements in
  row-major order. The matrices of the later stages are only ever used as two-dimensional
  arrays indexed by frame and band; they are lists of rows.
\<close>

datatype ndarray = NDArray (shape: "nat list") (data: "real list")

type_synonym matrix = "real list list"

text \<open>\<open>len(s)\<close>: the size of the first dimension.\<close>

definition py_len :: "ndarray \<Rightarrow> error + nat" where
  "py_len a = (case shape a of [] \<Rightarrow> Inl TypeError | n # _ \<Rightarrow> Inr n)"

text \<open>
  \<open>int(a / b)\<close> on integers: the quotient, truncated towards zero. (The float quotient of
  Python is the exact one as long as it is representable.)
\<close>

definition py_int_truediv :: "int \<Rightarrow> int \<Rightarrow> error + int" where
  "py_int_truediv a b =
     (if b = 0 then Inl ZeroDivisionError else Inr (sgn a * sgn b * (\<bar>a\<bar> div \<bar>b\<bar>)))"

text \<open>
  \<open>np.pad(s, ((2048, 2048), (0, 0)), mode="constant")\<close>: two pairs of pad widths fit an
  array of exactly two dimensions; rows of zeros are added before and after.
\<close>

definition np_pad :: "ndarray \<Rightarrow> error + ndarray" where
  "np_pad a =
     (case shape a of
        [n, c] \<Rightarrow>
          Inr (NDArray [2048 + n + 2048, c]
                 (replicate (2048 * c) 0 @ data a @ replicate (2048 * c) 0))
      | _ \<Rightarrow> Inl (ValueError Pad_width))"

text \<open>\<open>m[32:-32, :]\<close>: Python slicing never raises; short matrices give no rows.\<close>

definition slice_32 :: "matrix \<Rightarrow> matrix" where
  "slice_32 m = drop 32 (take (length m - 32) m)"

text \<open>\<open>m[0, :] = 0\<close>: the first row must exist.\<close>

definition zero_first_row :: "matrix \<Rightarrow> error + matrix" where
  "zero_first_row m =
     (case m of [] \<Rightarrow> Inl IndexError | r # rs \<Rightarrow> Inr (replicate (length r) 0 # rs))"

text \<open>\<open>a + b\<close> on one-dimensional arrays, with numpy's broadcasting of a single element.\<close>

definition np_add :: "real list \<Rightarrow> real list \<Rightarrow> error + real list" where
  "np_add xs ys =
     (if length xs = length ys then Inr (map2 (+) xs ys)
      else if length xs = 1 then Inr (map (\<lambda>y. hd xs + y) ys)
      else if length ys = 1 then Inr (map (\<lambda>x. x + hd ys) xs)
      else Inl (ValueError Broadcast))"

text \<open>\<open>np.max(a)\<close> on a one-dimensional array.\<close>

definition np_max :: "real list \<Rightarrow> error + real" where
  "np_max xs = (if xs = [] then Inl (ValueError Zero_size) else Inr (Max (set xs)))"

text \<open>\<open>np.sum(m, axis=1) / 4\<close>.\<close>

definition row_sums_div_4 :: "matrix \<Rightarrow> real list" where
  "row_sums_div_4 m = map (\<lambda>row. sum_list row / 4) m"

subsection \<open>The collaborators\<close>

text \<open>
  The functions \<open>tv2018\<close> imports. Their code is not in the sources; each is a parameter
  that returns a value or raises. The console is a parameter too: \<open>stdout_encodes\<close> says
  which strings the encoding of the standard output can encode.
\<close>

record mgsutils =
  load :: "string \<Rightarrow> error + (ndarray \<times> int)"
  resample :: "ndarray \<Rightarrow> int \<Rightarrow> error + ndarray"
  sound_field_to_cochlea :: "ndarray \<Rightarrow> string \<Rightarrow> error + ndarray"
  filtered_signal_to_monaural_instantaneous_specific_loudness ::
    "ndarray \<Rightarrow> int \<Rightarrow> real \<Rightarrow> error + (matrix \<times> matrix)"
  instantaneous_specific_loudness_to_short_term_specific_loudness ::
    "matrix \<Rightarrow> error + (matrix \<times> real list)"
  monaural_specific_loudness_to_binaural_loudness_025 ::
    "real list \<Rightarrow> real list \<Rightarrow> error + (real \<times> real \<times> real)"
  short_term_loudness_to_long_term_loudness :: "real list \<Rightarrow> error + real list"
  sone_to_phon_tv2018 :: "real list \<Rightarrow> error + real list"
  stdout_encodes :: "string \<Rightarrow> bool"

text \<open>\<open>print\<close> of a text that contains a string of the caller's.\<close>

definition py_print :: "mgsutils \<Rightarrow> string \<Rightarrow> error + unit" where
  "py_print m text = (if stdout_encodes m text then Inr () else Inl UnicodeEncodeError)"

subsection \<open>The five results\<close>

record outputs =
  loudness :: real
  short_term_loudness :: "real list"
  long_term_loudness :: "real list"
  instantaneous_loudness_left :: "real list"
  instantaneous_loudness_right :: "real list"

subsection \<open>\<open>tv2018\<close>, section by section\<close>

text \<open>Lines 54 to 56: the file is read when the samples or the rate are missing.\<close>

definition tv2018_load ::
  "mgsutils \<Rightarrow> string \<Rightarrow> ndarray option \<Rightarrow> int option \<Rightarrow> error + (ndarray \<times> int)" where
  "tv2018_load m filename_sound s fs =
     (case (s, fs) of
        (Some s', Some fs') \<Rightarrow> Inr (s', fs')
      | _ \<Rightarrow> load m filename_sound)"

text \<open>Lines 58 to 63: a signal at another rate is resampled to 32 kHz.\<close>

definition tv2018_resample :: "mgsutils \<Rightarrow> ndarray \<Rightarrow> int \<Rightarrow> error + (ndarray \<times> int)" where
  "tv2018_resample m s fs =
     (if fs \<noteq> 32000 then
        andthen (py_len s) (\<lambda>n.
        andthen (py_int_truediv (32000 * int n) fs) (\<lambda>num.
        andthen (resample m s num) (\<lambda>s'.
        Inr (s', 32000))))
      else Inr (s, fs))"

text \<open>Lines 54 to 68: loading, resampling and padding.\<close>

definition tv2018_input ::
  "mgsutils \<Rightarrow> string \<Rightarrow> ndarray option \<Rightarrow> int option \<Rightarrow> error + (ndarray \<times> int)" where
  "tv2018_input m filename_sound s fs =
     andthen (tv2018_load m filename_sound s fs) (\<lambda>(s1, fs1).
     andthen (tv2018_resample m s1 fs1) (\<lambda>(s2, fs2).
     andthen (np_pad s2) (\<lambda>s3.
     Inr (s3, fs2))))"

text \<open>
  Lines 70 to 88: the transform to the cochlea, the instantaneous specific loudness of
  both channels, the trimming of both matrices and the zeroing of their first rows.
\<close>

definition tv2018_instantaneous ::
  "mgsutils \<Rightarrow> ndarray \<Rightarrow> int \<Rightarrow> real \<Rightarrow> string \<Rightarrow> error + (matrix \<times> matrix)" where
  "tv2018_instantaneous m s fs db_max field_type =
     andthen (sound_field_to_cochlea m s field_type) (\<lambda>c.
     andthen (filtered_signal_to_monaural_instantaneous_specific_loudness m c fs db_max)
       (\<lambda>(left, right).
     andthen (zero_first_row (slice_32 left)) (\<lambda>left'.
     andthen (zero_first_row (slice_32 right)) (\<lambda>right'.
     Inr (left', right')))))"

text \<open>
  Lines 107 to 113: the loop over the frames of the left matrix. Reading a frame the
  right matrix does not have raises; the totals are stored at the frame's index.
\<close>

fun binaural_frames ::
  "mgsutils \<Rightarrow> matrix \<Rightarrow> matrix \<Rightarrow> nat list \<Rightarrow> real list \<times> real list \<Rightarrow>
     error + (real list \<times> real list)" where
  "binaural_frames m left right [] acc = Inr acc"
| "binaural_frames m left right (i # is) (sl, sr) =
     (if i < length right then
        andthen (monaural_specific_loudness_to_binaural_loudness_025 m (left ! i) (right ! i))
          (\<lambda>(_, l, r). binaural_frames m left right is (sl[i := l], sr[i := r]))
      else Inl IndexError)"

text \<open>
  Lines 90 to 113: the short-term specific loudness of both channels (the second value
  the integrator returns is overwritten by zeros), then the loop.
\<close>

definition tv2018_short_term ::
  "mgsutils \<Rightarrow> matrix \<Rightarrow> matrix \<Rightarrow> error + (real list \<times> real list)" where
  "tv2018_short_term m left right =
     andthen (instantaneous_specific_loudness_to_short_term_specific_loudness m left)
       (\<lambda>(st_left, _).
     andthen (instantaneous_specific_loudness_to_short_term_specific_loudness m right)
       (\<lambda>(st_right, _).
     binaural_frames m st_left st_right [0..<length st_left]
       (replicate (length st_left) 0, replicate (length st_right) 0)))"

text \<open>Lines 115 to 121: the long-term loudness of both channels.\<close>

definition tv2018_long_term ::
  "mgsutils \<Rightarrow> real list \<Rightarrow> real list \<Rightarrow> error + (real list \<times> real list)" where
  "tv2018_long_term m sl sr =
     andthen (short_term_loudness_to_long_term_loudness m sl) (\<lambda>ll.
     andthen (short_term_loudness_to_long_term_loudness m sr) (\<lambda>lr.
     Inr (ll, lr)))"

text \<open>Lines 123 to 134: the five results.\<close>

definition tv2018_outputs ::
  "matrix \<Rightarrow> matrix \<Rightarrow> real list \<Rightarrow> real list \<Rightarrow> real list \<Rightarrow> real list \<Rightarrow> error + outputs" where
  "tv2018_outputs left right sl sr ll lr =
     andthen (np_add ll lr) (\<lambda>lt.
     andthen (np_max lt) (\<lambda>mx.
     andthen (np_add sl sr) (\<lambda>st.
     Inr \<lparr>loudness = mx,
          short_term_loudness = st,
          long_term_loudness = lt,
          instantaneous_loudness_left = row_sums_div_4 left,
          instantaneous_loudness_right = row_sums_div_4 right\<rparr>)))"

text \<open>
  Lines 136 to 155: the report. It prints the file name (line 136) and the field type
  (line 140), then evaluates maxima and conversions to phon; only its exceptions matter.
\<close>

definition tv2018_report :: "mgsutils \<Rightarrow> string \<Rightarrow> string \<Rightarrow> outputs \<Rightarrow> error + unit" where
  "tv2018_report m filename_sound field_type out =
     andthen (py_print m filename_sound) (\<lambda>_.
     andthen (py_print m field_type) (\<lambda>_.
     andthen (np_max (long_term_loudness out)) (\<lambda>_.
     andthen (sone_to_phon_tv2018 m (long_term_loudness out)) (\<lambda>p.
     andthen (np_max p) (\<lambda>_.
     andthen (np_max (short_term_loudness out)) (\<lambda>_.
     andthen (sone_to_phon_tv2018 m (short_term_loudness out)) (\<lambda>q.
     andthen (np_max q) (\<lambda>_.
     andthen (np_max (instantaneous_loudness_left out)) (\<lambda>_.
     andthen (np_max (instantaneous_loudness_right out)) (\<lambda>_.
     Inr ()))))))))))"

text \<open>Lines 70 to 163: everything after the padding.\<close>

definition tv2018_stages ::
  "mgsutils \<Rightarrow> string \<Rightarrow> ndarray \<Rightarrow> int \<Rightarrow> real \<Rightarrow> string \<Rightarrow> error + outputs" where
  "tv2018_stages m filename_sound s fs db_max field_type =
     andthen (tv2018_instantaneous m s fs db_max field_type) (\<lambda>(left, right).
     andthen (tv2018_short_term m left right) (\<lambda>(sl, sr).
     andthen (tv2018_long_term m sl sr) (\<lambda>(ll, lr).
     andthen (tv2018_outputs left right sl sr ll lr) (\<lambda>out.
     andthen (tv2018_report m filename_sound field_type out) (\<lambda>_.
     Inr out)))))"

text \<open>The whole function.\<close>

definition tv2018 ::
  "mgsutils \<Rightarrow> string \<Rightarrow> real \<Rightarrow> string \<Rightarrow> ndarray option \<Rightarrow> int option \<Rightarrow> error + outputs" where
  "tv2018 m filename_sound db_max field_type s fs =
     andthen (tv2018_input m filename_sound s fs) (\<lambda>(s', fs').
     tv2018_stages m filename_sound s' fs' db_max field_type)"

subsection \<open>A small set of collaborators to run the pipeline on\<close>

text \<open>
  Every statement below holds for all collaborators. To run \<open>tv2018\<close> on a concrete input
  some collaborators are needed; these are as simple as can be: 66 frames of two bands,
  no smoothing, totals that are the sums of the bands, and a console that encodes ASCII.
\<close>

definition toy :: mgsutils where
  "toy =
     \<lparr>load = (\<lambda>name. Inr (NDArray [2, 1] [1, 1], 32000)),
      resample = (\<lambda>s num. Inr (NDArray (nat num # tl (shape s)) (replicate (nat num) 0))),
      sound_field_to_cochlea = (\<lambda>s field_type. Inr s),
      filtered_signal_to_monaural_instantaneous_specific_loudness =
        (\<lambda>s fs db_max. Inr (replicate 66 [1, 3], replicate 66 [2, 2])),
      instantaneous_specific_loudness_to_short_term_specific_loudness =
        (\<lambda>x. Inr (x, map sum_list x)),
      monaural_specific_loudness_to_binaural_loudness_025 =
        (\<lambda>l r. Inr (sum_list l + sum_list r, sum_list l, sum_list r)),
      short_term_loudness_to_long_term_loudness = (\<lambda>x. Inr x),
      sone_to_phon_tv2018 = (\<lambda>x. Inr x),
      stdout_encodes = (\<lambda>text. list_all (\<lambda>c. of_char c < (128 :: nat)) text)\<rparr>"

subsection \<open>Replacing what the short-term integrator returns second\<close>

text \<open>
  The collaborators \<open>m\<close>, but with the second value returned by
  \<open>instantaneous_specific_loudness_to_short_term_specific_loudness\<close> replaced by \<open>g\<close> of the
  argument and of the value: any other value, since \<open>g\<close> is arbitrary.
\<close>

definition replace_second_value ::
  "(matrix \<Rightarrow> real list \<Rightarrow> real list) \<Rightarrow> mgsutils \<Rightarrow> mgsutils" where
  "replace_second_value g m =
     m\<lparr>instantaneous_specific_loudness_to_short_term_specific_loudness :=
         (\<lambda>x. andthen (instantaneous_specific_loudness_to_short_term_specific_loudness m x)
                (\<lambda>(st, v). Inr (st, g x v)))\<rparr>"

subsection \<open>Non-negative stages\<close>

definition nonneg :: "real list \<Rightarrow> bool" where
  "nonneg xs \<longleftrightarrow> (\<forall>v\<in>set xs. 0 \<le> v)"

definition nonneg_matrix :: "matrix \<Rightarrow> bool" where
  "nonneg_matrix x \<longleftrightarrow> (\<forall>row\<in>set x. nonneg row)"

text \<open>
  Modelled from the spec: the code of the stages in \<open>mgsutils\<close> is missing, and the spec
  gives their values as non-negative (section 3: instantaneous specific loudness "values
  \<open>\<ge>\<close> 0", the binaural triple "all \<open>\<ge>\<close> 0", the long-term sequence "one non-negative value
  per frame"; section 4.2: "non-negative time-frame \<open>\<times>\<close> band matrix per channel"; section
  4.4 and 4.5: "all \<open>\<ge>\<close> 0"; section 8: "every instantaneous, short-term, and long-term
  loudness value is \<open>\<ge>\<close> 0"). The filterbank returns non-negative matrices, and each later
  stage returns non-negative values when it is given non-negative ones.
\<close>

definition stages_keep_nonneg :: "mgsutils \<Rightarrow> bool" where
  "stages_keep_nonneg m \<longleftrightarrow>
     (\<forall>s fs db_max left right.
        filtered_signal_to_monaural_instantaneous_specific_loudness m s fs db_max =
          Inr (left, right) \<longrightarrow>
        nonneg_matrix left \<and> nonneg_matrix right) \<and>
     (\<forall>x y v.
        nonneg_matrix x \<longrightarrow>
        instantaneous_specific_loudness_to_short_term_specific_loudness m x = Inr (y, v) \<longrightarrow>
        nonneg_matrix y) \<and>
     (\<forall>l r b tl tr.
        nonneg l \<longrightarrow> nonneg r \<longrightarrow>
        monaural_specific_loudness_to_binaural_loudness_025 m l r = Inr (b, tl, tr) \<longrightarrow>
        0 \<le> tl \<and> 0 \<le> tr) \<and>
     (\<forall>x y.
        nonneg x \<longrightarrow> short_term_loudness_to_long_term_loudness m x = Inr y \<longrightarrow> nonneg y)"

section \<open>Properties\<close>

subsection \<open>Sequencing, and the toy pipeline evaluated\<close>

lemma andthen_Inr_iff: "andthen x f = Inr y \<longleftrightarrow> (\<exists>v. x = Inr v \<and> f v = Inr y)"
  by (cases x) auto

lemma andthen_Inl_iff:
  "andthen x f = Inl e \<longleftrightarrow> x = Inl e \<or> (\<exists>v. x = Inr v \<and> f v = Inl e)"
  by (cases x) auto

lemma toy_sel:
  "load toy = (\<lambda>name. Inr (NDArray [2, 1] [1, 1], 32000))"
  "resample toy = (\<lambda>s num. Inr (NDArray (nat num # tl (shape s)) (replicate (nat num) 0)))"
  "sound_field_to_cochlea toy = (\<lambda>s field_type. Inr s)"
  "filtered_signal_to_monaural_instantaneous_specific_loudness toy =
        (\<lambda>s fs db_max. Inr (replicate 66 [1, 3], replicate 66 [2, 2]))"
  "instantaneous_specific_loudness_to_short_term_specific_loudness toy =
        (\<lambda>x. Inr (x, map sum_list x))"
  "monaural_specific_loudness_to_binaural_loudness_025 toy =
        (\<lambda>l r. Inr (sum_list l + sum_list r, sum_list l, sum_list r))"
  "short_term_loudness_to_long_term_loudness toy = (\<lambda>x. Inr x)"
  "sone_to_phon_tv2018 toy = (\<lambda>x. Inr x)"
  "stdout_encodes toy = (\<lambda>text. list_all (\<lambda>c. of_char c < (128 :: nat)) text)"
  by (simp_all add: toy_def)

lemma toy_instantaneous:
  "tv2018_instantaneous toy s fs db_max field_type = Inr ([[0, 0], [1, 3]], [[0, 0], [2, 2]])"
  by (simp add: tv2018_instantaneous_def slice_32_def zero_first_row_def toy_sel
      eval_nat_numeral)

lemma toy_stages:
  "tv2018_stages toy ''a.wav'' s fs db_max ''free'' =
     Inr \<lparr>loudness = 8, short_term_loudness = [0, 8], long_term_loudness = [0, 8],
          instantaneous_loudness_left = [0, 1], instantaneous_loudness_right = [0, 1]\<rparr>"
  by (simp add: tv2018_stages_def toy_instantaneous tv2018_short_term_def
      tv2018_long_term_def tv2018_outputs_def tv2018_report_def py_print_def np_add_def
      np_max_def row_sums_div_4_def toy_sel upt_rec)

subsection \<open>Another sampling rate\<close>

text \<open>
  C1, as the spec has it: a signal whose rate is not 32 kHz makes the pipeline fail at
  once. It does not: at 16 kHz the toy pipeline returns its five results.
\<close>

theorem other_rate_is_accepted:
  "(16000 :: int) \<noteq> 32000 \<and>
   tv2018 toy ''a.wav'' 100 ''free'' (Some (NDArray [2, 1] [1, 1])) (Some 16000) =
     Inr \<lparr>loudness = 8, short_term_loudness = [0, 8], long_term_loudness = [0, 8],
          instantaneous_loudness_left = [0, 1], instantaneous_loudness_right = [0, 1]\<rparr>"
  by (simp add: tv2018_def tv2018_input_def tv2018_load_def tv2018_resample_def py_len_def
      py_int_truediv_def np_pad_def toy_sel toy_stages)

text \<open>
  C1, amended: when the caller's rate \<open>fs\<close> is not 32000, \<open>tv2018\<close> resamples the signal to
  \<open>int(32000 * len(s) / fs)\<close> samples and then does exactly what it does on the resampled
  signal at 32 kHz; it fails at this point only if \<open>len\<close>, the division or the resampler
  raises.
\<close>

theorem other_rate_is_resampled:
  assumes "fs \<noteq> 32000"
  shows "tv2018 m filename_sound db_max field_type (Some s) (Some fs) =
     andthen (py_len s) (\<lambda>n.
     andthen (py_int_truediv (32000 * int n) fs) (\<lambda>num.
     andthen (resample m s num) (\<lambda>s'.
     tv2018 m filename_sound db_max field_type (Some s') (Some 32000))))"
proof (cases "py_len s")
  case (Inl e)
  then show ?thesis
    using assms by (simp add: tv2018_def tv2018_input_def tv2018_load_def tv2018_resample_def)
next
  case n: (Inr n)
  show ?thesis
  proof (cases "py_int_truediv (32000 * int n) fs")
    case (Inl e)
    then show ?thesis
      using assms n
      by (simp add: tv2018_def tv2018_input_def tv2018_load_def tv2018_resample_def)
  next
    case num: (Inr num)
    show ?thesis
    proof (cases "resample m s num")
      case (Inl e)
      then show ?thesis
        using assms n num
        by (simp add: tv2018_def tv2018_input_def tv2018_load_def tv2018_resample_def)
    next
      case (Inr s')
      then show ?thesis
        using assms n num
        by (simp add: tv2018_def tv2018_input_def tv2018_load_def tv2018_resample_def)
    qed
  qed
qed

theorem other_rate_is_resampled_witness:
  "(16000 :: int) \<noteq> 32000 \<and>
   tv2018 toy ''a.wav'' 100 ''free'' (Some (NDArray [2, 1] [1, 1])) (Some 16000) =
   tv2018 toy ''a.wav'' 100 ''free'' (Some (NDArray [4, 1] [0, 0, 0, 0])) (Some 32000)"
  using other_rate_is_resampled
    [of 16000 toy "''a.wav''" 100 "''free''" "NDArray [2, 1] [1, 1]"]
  by (simp add: py_len_def py_int_truediv_def toy_sel eval_nat_numeral)

lemma toy_run:
  "tv2018 toy ''a.wav'' db_max ''free'' (Some (NDArray [2, 1] [1, 1])) (Some 32000) =
     Inr \<lparr>loudness = 8, short_term_loudness = [0, 8], long_term_loudness = [0, 8],
          instantaneous_loudness_left = [0, 1], instantaneous_loudness_right = [0, 1]\<rparr>"
  by (simp add: tv2018_def tv2018_input_def tv2018_load_def tv2018_resample_def np_pad_def
      toy_stages)

subsection \<open>Trimming\<close>

lemma slice_32_length: "length (slice_32 x) = length x - 64"
  by (simp add: slice_32_def)

lemma slice_32_nth: "i < length x - 64 \<Longrightarrow> slice_32 x ! i = x ! (i + 32)"
  by (simp add: slice_32_def add.commute)

lemma zero_first_row_long:
  assumes "64 < length x"
  shows "zero_first_row (slice_32 x) =
           Inr (replicate (length (x ! 32)) 0 # tl (slice_32 x))"
proof -
  from assms have "slice_32 x \<noteq> []"
    using slice_32_length [of x] by (metis length_0_conv zero_less_diff less_numeral_extra(3))
  then obtain r rs where c: "slice_32 x = r # rs"
    by (cases "slice_32 x") auto
  have "r = slice_32 x ! 0" by (simp add: c)
  also have "\<dots> = x ! 32" using assms by (simp add: slice_32_nth)
  finally show ?thesis by (simp add: zero_first_row_def c)
qed

lemma zero_first_row_short:
  "length x \<le> 64 \<Longrightarrow> zero_first_row (slice_32 x) = Inl IndexError"
  using slice_32_length [of x] by (cases "slice_32 x") (auto simp: zero_first_row_def)

text \<open>
  C2: the instantaneous specific loudness matrices of both channels lose 32 frames at
  each end, so that of the \<open>n\<close> frames computed from the padded signal \<open>n - 64\<close> are kept;
  the first frame kept is zero in every band, whatever the signal; the other frames kept
  are the computed ones. This is what happens whenever more than 64 frames were computed.
\<close>

theorem trimmed_frames:
  assumes "sound_field_to_cochlea m s field_type = Inr c"
    and "filtered_signal_to_monaural_instantaneous_specific_loudness m c fs db_max =
           Inr (left, right)"
    and "64 < length left" and "64 < length right"
  shows "\<exists>left' right'.
           tv2018_instantaneous m s fs db_max field_type = Inr (left', right') \<and>
           length left' = length left - 64 \<and> length right' = length right - 64 \<and>
           hd left' = replicate (length (left ! 32)) 0 \<and>
           hd right' = replicate (length (right ! 32)) 0 \<and>
           (\<forall>i. 0 < i \<and> i < length left - 64 \<longrightarrow> left' ! i = left ! (i + 32)) \<and>
           (\<forall>i. 0 < i \<and> i < length right - 64 \<longrightarrow> right' ! i = right ! (i + 32))"
proof -
  let ?l = "replicate (length (left ! 32)) 0 # tl (slice_32 left)"
  let ?r = "replicate (length (right ! 32)) 0 # tl (slice_32 right)"
  have run: "tv2018_instantaneous m s fs db_max field_type = Inr (?l, ?r)"
    using assms by (simp add: tv2018_instantaneous_def zero_first_row_long)
  have len: "length ?l = length left - 64" "length ?r = length right - 64"
    using assms(3,4) slice_32_length [of left] slice_32_length [of right] by simp_all
  have nth: "?l ! i = left ! (i + 32)" if "0 < i" "i < length left - 64" for i
  proof -
    from that obtain j where j: "i = Suc j" by (cases i) auto
    have "slice_32 left \<noteq> []" using that slice_32_length [of left] by auto
    then obtain r rs where "slice_32 left = r # rs" by (cases "slice_32 left") auto
    then have "?l ! i = slice_32 left ! i" by (simp add: j)
    then show ?thesis using that by (simp add: slice_32_nth)
  qed
  have nth': "?r ! i = right ! (i + 32)" if "0 < i" "i < length right - 64" for i
  proof -
    from that obtain j where j: "i = Suc j" by (cases i) auto
    have "slice_32 right \<noteq> []" using that slice_32_length [of right] by auto
    then obtain r rs where "slice_32 right = r # rs" by (cases "slice_32 right") auto
    then have "?r ! i = slice_32 right ! i" by (simp add: j)
    then show ?thesis using that by (simp add: slice_32_nth)
  qed
  show ?thesis
    apply (rule exI [of _ ?l], rule exI [of _ ?r])
    using run len nth nth' by simp
qed

theorem trimmed_frames_witness:
  "\<exists>left' right'.
     tv2018_instantaneous toy (NDArray [2, 1] [1, 1]) 32000 100 ''free'' = Inr (left', right') \<and>
     length left' = 2 \<and> length right' = 2 \<and>
     hd left' = [0, 0] \<and> hd right' = [0, 0] \<and>
     left' ! 1 = [1, 3] \<and> right' ! 1 = [2, 2]"
proof -
  have "(64::nat) < length (replicate 66 [1, 3::real])"
    and "(64::nat) < length (replicate 66 [2, 2::real])"
    by simp_all
  from trimmed_frames [of toy "NDArray [2, 1] [1, 1]" "''free''" "NDArray [2, 1] [1, 1]" 32000 100
      "replicate 66 [1, 3]" "replicate 66 [2, 2]", OF _ _ this]
  obtain left' right' where
    "tv2018_instantaneous toy (NDArray [2, 1] [1, 1]) 32000 100 ''free'' = Inr (left', right')"
    "length left' = 2" "length right' = 2" "hd left' = [0, 0]" "hd right' = [0, 0]"
    "\<forall>i. 0 < i \<and> i < 2 \<longrightarrow> left' ! i = replicate 66 [1, 3] ! (i + 32)"
    "\<forall>i. 0 < i \<and> i < 2 \<longrightarrow> right' ! i = replicate 66 [2, 2] ! (i + 32)"
    by (auto simp: toy_sel)
  moreover from this have "left' ! 1 = [1, 3]" "right' ! 1 = [2, 2]"
    by simp_all
  ultimately show ?thesis by blast
qed

text \<open>With 64 frames or fewer there is no first frame to set to zero.\<close>

lemma too_few_frames_raise:
  assumes "sound_field_to_cochlea m s field_type = Inr c"
    and "filtered_signal_to_monaural_instantaneous_specific_loudness m c fs db_max =
           Inr (left, right)"
    and "length left \<le> 64 \<or> length right \<le> 64"
  shows "tv2018_instantaneous m s fs db_max field_type = Inl IndexError"
  using assms
  by (cases "64 < length left")
     (auto simp: tv2018_instantaneous_def zero_first_row_long zero_first_row_short)

subsection \<open>The loudness\<close>

text \<open>
  C3: whenever \<open>tv2018\<close> returns, the loudness it returns is the maximum, over the frames,
  of the sum of the two sequences the long-term integrator returned for the left and for
  the right short-term totals.
\<close>

theorem loudness_is_max_of_long_term:
  assumes "tv2018 m filename_sound db_max field_type s fs = Inr out"
  shows "\<exists>p r left right sl sr ll lr.
           tv2018_input m filename_sound s fs = Inr (p, r) \<and>
           tv2018_instantaneous m p r db_max field_type = Inr (left, right) \<and>
           tv2018_short_term m left right = Inr (sl, sr) \<and>
           short_term_loudness_to_long_term_loudness m sl = Inr ll \<and>
           short_term_loudness_to_long_term_loudness m sr = Inr lr \<and>
           np_add ll lr = Inr (long_term_loudness out) \<and>
           long_term_loudness out \<noteq> [] \<and>
           loudness out = Max (set (long_term_loudness out)) \<and>
           (length ll = length lr \<longrightarrow> long_term_loudness out = map2 (+) ll lr)"
proof -
  from assms obtain p r where inp: "tv2018_input m filename_sound s fs = Inr (p, r)"
    and st: "tv2018_stages m filename_sound p r db_max field_type = Inr out"
    by (auto simp: tv2018_def andthen_Inr_iff)
  from st obtain left right sl sr ll lr where
    a: "tv2018_instantaneous m p r db_max field_type = Inr (left, right)"
    and b: "tv2018_short_term m left right = Inr (sl, sr)"
    and c: "tv2018_long_term m sl sr = Inr (ll, lr)"
    and d: "tv2018_outputs left right sl sr ll lr = Inr out"
    by (auto simp: tv2018_stages_def andthen_Inr_iff)
  from c have e: "short_term_loudness_to_long_term_loudness m sl = Inr ll"
    "short_term_loudness_to_long_term_loudness m sr = Inr lr"
    by (auto simp: tv2018_long_term_def andthen_Inr_iff)
  from d obtain lt mx st' where
    f: "np_add ll lr = Inr lt" and g: "np_max lt = Inr mx" and
    h: "out = \<lparr>loudness = mx, short_term_loudness = st', long_term_loudness = lt,
          instantaneous_loudness_left = row_sums_div_4 left,
          instantaneous_loudness_right = row_sums_div_4 right\<rparr>"
    by (auto simp: tv2018_outputs_def andthen_Inr_iff)
  from g have i: "lt \<noteq> []" "mx = Max (set lt)"
    by (auto simp: np_max_def split: if_splits)
  from f have j: "length ll = length lr \<longrightarrow> lt = map2 (+) ll lr"
    by (auto simp: np_add_def)
  show ?thesis
    using inp a b e f i j by (auto simp: h)
qed


theorem loudness_is_max_of_long_term_witness:
  "tv2018 toy ''a.wav'' 100 ''free'' (Some (NDArray [2, 1] [1, 1])) (Some 32000) =
     Inr \<lparr>loudness = 8, short_term_loudness = [0, 8], long_term_loudness = [0, 8],
          instantaneous_loudness_left = [0, 1], instantaneous_loudness_right = [0, 1]\<rparr> \<and>
   (\<exists>ll lr. np_add ll lr = Inr [0, 8] \<and> (8 :: real) = Max (set [0, 8]))"
proof -
  have run:
    "tv2018 toy ''a.wav'' 100 ''free'' (Some (NDArray [2, 1] [1, 1])) (Some 32000) =
       Inr \<lparr>loudness = 8, short_term_loudness = [0, 8], long_term_loudness = [0, 8],
          instantaneous_loudness_left = [0, 1], instantaneous_loudness_right = [0, 1]\<rparr>"
    by (rule toy_run)
  from loudness_is_max_of_long_term [OF run] show ?thesis
    using run by auto
qed

subsection \<open>The unused short-term loudness\<close>

lemma binaural_frames_cong:
  assumes "monaural_specific_loudness_to_binaural_loudness_025 m' =
           monaural_specific_loudness_to_binaural_loudness_025 m"
  shows "binaural_frames m' left right is acc = binaural_frames m left right is acc"
proof (induction "is" arbitrary: acc)
  case Nil
  show ?case by simp
next
  case (Cons i "is")
  obtain sl sr where acc: "acc = (sl, sr)" by (cases acc)
  show ?case
    unfolding acc
    by (cases "monaural_specific_loudness_to_binaural_loudness_025 m (left ! i) (right ! i)")
       (auto simp: assms Cons.IH)
qed

lemma short_term_replace:
  "tv2018_short_term (replace_second_value g m) left right = tv2018_short_term m left right"
proof (cases "instantaneous_specific_loudness_to_short_term_specific_loudness m left")
  case (Inl e)
  then show ?thesis by (simp add: tv2018_short_term_def replace_second_value_def)
next
  case l: (Inr a)
  obtain stl v where a: "a = (stl, v)" by (cases a)
  show ?thesis
  proof (cases "instantaneous_specific_loudness_to_short_term_specific_loudness m right")
    case (Inl e)
    then show ?thesis
      using l a by (simp add: tv2018_short_term_def replace_second_value_def)
  next
    case r: (Inr b)
    obtain str w where b: "b = (str, w)" by (cases b)
    have "binaural_frames (replace_second_value g m) stl str is acc =
          binaural_frames m stl str is acc" for "is" acc
      by (rule binaural_frames_cong) (simp add: replace_second_value_def)
    then show ?thesis
      using l a r b by (simp add: tv2018_short_term_def replace_second_value_def)
  qed
qed

lemma binaural_frames_trace:
  "binaural_frames m left right is (sl0, sr0) = Inr (sl, sr) \<Longrightarrow>
   distinct is \<Longrightarrow> \<forall>i\<in>set is. i < length sl0 \<Longrightarrow> length sr0 = length right \<Longrightarrow>
   length sl = length sl0 \<and> length sr = length sr0 \<and>
   (\<forall>i\<in>set is. i < length right \<and>
      (\<exists>b. monaural_specific_loudness_to_binaural_loudness_025 m (left ! i) (right ! i) =
             Inr (b, sl ! i, sr ! i))) \<and>
   (\<forall>j. j \<notin> set is \<longrightarrow> sl ! j = sl0 ! j \<and> sr ! j = sr0 ! j)"
proof (induction "is" arbitrary: sl0 sr0)
  case Nil
  then show ?case by simp
next
  case (Cons i "is")
  from Cons.prems(1) have ir: "i < length right"
    by (auto split: if_splits)
  with Cons.prems(1) obtain b l r where
    call: "monaural_specific_loudness_to_binaural_loudness_025 m (left ! i) (right ! i) =
             Inr (b, l, r)"
    and rest: "binaural_frames m left right is (sl0[i := l], sr0[i := r]) = Inr (sl, sr)"
    by (auto simp: andthen_Inr_iff)
  from Cons.prems(2) have d: "distinct is" and ni: "i \<notin> set is" by simp_all
  from Cons.prems(3) have il: "i < length sl0"
    and b': "\<forall>j\<in>set is. j < length (sl0[i := l])" by simp_all
  from Cons.prems(4) have len: "length (sr0[i := r]) = length right" by simp
  note IH = Cons.IH [OF rest d b' len]
  from IH have lens: "length sl = length sl0" "length sr = length sr0" by simp_all
  from IH ni have "sl ! i = sl0[i := l] ! i" "sr ! i = sr0[i := r] ! i" by blast+
  with il ir Cons.prems(4) have here: "sl ! i = l" "sr ! i = r" by simp_all
  have other: "sl ! j = sl0 ! j \<and> sr ! j = sr0 ! j" if "j \<notin> set (i # is)" for j
  proof -
    from that have "j \<noteq> i" "j \<notin> set is" by simp_all
    with IH have "sl ! j = sl0[i := l] ! j" "sr ! j = sr0[i := r] ! j" by blast+
    with \<open>j \<noteq> i\<close> show ?thesis by simp
  qed
  from IH have later: "\<forall>k\<in>set is. k < length right \<and>
      (\<exists>b. monaural_specific_loudness_to_binaural_loudness_025 m (left ! k) (right ! k) =
             Inr (b, sl ! k, sr ! k))" by blast
  show ?case
    using lens ir call here later other by auto
qed

lemma short_term_trace:
  assumes "tv2018_short_term m left right = Inr (sl, sr)"
  shows "\<exists>st_left v st_right w.
     instantaneous_specific_loudness_to_short_term_specific_loudness m left =
       Inr (st_left, v) \<and>
     instantaneous_specific_loudness_to_short_term_specific_loudness m right =
       Inr (st_right, w) \<and>
     length sl = length st_left \<and> length sr = length st_right \<and>
     length st_left \<le> length st_right \<and>
     (\<forall>i<length st_left.
        \<exists>b. monaural_specific_loudness_to_binaural_loudness_025 m (st_left ! i) (st_right ! i) =
             Inr (b, sl ! i, sr ! i)) \<and>
     (\<forall>i. length st_left \<le> i \<and> i < length st_right \<longrightarrow> sr ! i = 0)"
proof -
  from assms obtain stl v str w where
    cl: "instantaneous_specific_loudness_to_short_term_specific_loudness m left = Inr (stl, v)"
    and cr: "instantaneous_specific_loudness_to_short_term_specific_loudness m right = Inr (str, w)"
    and loop: "binaural_frames m stl str [0..<length stl]
       (replicate (length stl) 0, replicate (length str) 0) = Inr (sl, sr)"
    by (auto simp: tv2018_short_term_def andthen_Inr_iff)
  have tr: "length sl = length (replicate (length stl) (0::real)) \<and>
     length sr = length (replicate (length str) (0::real)) \<and>
     (\<forall>i\<in>set [0..<length stl]. i < length str \<and>
        (\<exists>b. monaural_specific_loudness_to_binaural_loudness_025 m (stl ! i) (str ! i) =
               Inr (b, sl ! i, sr ! i))) \<and>
     (\<forall>j. j \<notin> set [0..<length stl] \<longrightarrow>
        sl ! j = replicate (length stl) (0::real) ! j \<and>
        sr ! j = replicate (length str) (0::real) ! j)"
    by (rule binaural_frames_trace [OF loop]) simp_all
  then have lens: "length sl = length stl" "length sr = length str" by simp_all
  from tr have each: "\<forall>i<length stl. i < length str \<and>
        (\<exists>b. monaural_specific_loudness_to_binaural_loudness_025 m (stl ! i) (str ! i) =
               Inr (b, sl ! i, sr ! i))" by simp
  have le: "length stl \<le> length str"
  proof (cases "length stl")
    case 0
    then show ?thesis by simp
  next
    case (Suc k)
    with each have "k < length str" by simp
    with Suc show ?thesis by simp
  qed
  have zeros: "sr ! i = 0" if "length stl \<le> i \<and> i < length str" for i
  proof -
    from that have "i \<notin> set [0..<length stl]" by simp
    with tr have "sr ! i = replicate (length str) (0::real) ! i" by blast
    with that show ?thesis by simp
  qed
  show ?thesis
    using cl cr lens le each zeros by blast
qed

lemma replaced_run:
  "tv2018 (replace_second_value g m) filename_sound db_max field_type s fs =
   tv2018 m filename_sound db_max field_type s fs"
proof -
  have sel: "load (replace_second_value g m) = load m"
    "resample (replace_second_value g m) = resample m"
    "sound_field_to_cochlea (replace_second_value g m) = sound_field_to_cochlea m"
    "filtered_signal_to_monaural_instantaneous_specific_loudness (replace_second_value g m) =
       filtered_signal_to_monaural_instantaneous_specific_loudness m"
    "short_term_loudness_to_long_term_loudness (replace_second_value g m) =
       short_term_loudness_to_long_term_loudness m"
    "sone_to_phon_tv2018 (replace_second_value g m) = sone_to_phon_tv2018 m"
    "stdout_encodes (replace_second_value g m) = stdout_encodes m"
    by (simp_all add: replace_second_value_def)
  have inp: "tv2018_input (replace_second_value g m) = tv2018_input m"
    unfolding tv2018_input_def tv2018_load_def tv2018_resample_def sel by (rule refl)
  have ins: "tv2018_instantaneous (replace_second_value g m) = tv2018_instantaneous m"
    unfolding tv2018_instantaneous_def sel by (rule refl)
  have lt: "tv2018_long_term (replace_second_value g m) = tv2018_long_term m"
    unfolding tv2018_long_term_def sel by (rule refl)
  have rep: "tv2018_report (replace_second_value g m) = tv2018_report m"
    unfolding tv2018_report_def py_print_def sel by (rule refl)
  have "tv2018_stages (replace_second_value g m) = tv2018_stages m"
    unfolding tv2018_stages_def ins lt rep short_term_replace by (rule refl)
  then show ?thesis by (simp add: tv2018_def inp)
qed

lemma returned_run_trace:
  assumes "tv2018 m filename_sound db_max field_type s fs = Inr out"
  shows "\<exists>p r left right sl sr ll lr.
           tv2018_input m filename_sound s fs = Inr (p, r) \<and>
           tv2018_instantaneous m p r db_max field_type = Inr (left, right) \<and>
           tv2018_short_term m left right = Inr (sl, sr) \<and>
           short_term_loudness_to_long_term_loudness m sl = Inr ll \<and>
           short_term_loudness_to_long_term_loudness m sr = Inr lr \<and>
           np_add ll lr = Inr (long_term_loudness out) \<and>
           np_max (long_term_loudness out) = Inr (loudness out) \<and>
           np_add sl sr = Inr (short_term_loudness out)"
proof -
  from assms obtain p r where inp: "tv2018_input m filename_sound s fs = Inr (p, r)"
    and st: "tv2018_stages m filename_sound p r db_max field_type = Inr out"
    by (auto simp: tv2018_def andthen_Inr_iff)
  from st obtain left right sl sr ll lr where
    a: "tv2018_instantaneous m p r db_max field_type = Inr (left, right)"
    and b: "tv2018_short_term m left right = Inr (sl, sr)"
    and c: "tv2018_long_term m sl sr = Inr (ll, lr)"
    and d: "tv2018_outputs left right sl sr ll lr = Inr out"
    by (auto simp: tv2018_stages_def andthen_Inr_iff)
  from c have e: "short_term_loudness_to_long_term_loudness m sl = Inr ll"
    "short_term_loudness_to_long_term_loudness m sr = Inr lr"
    by (auto simp: tv2018_long_term_def andthen_Inr_iff)
  from d have f: "np_add ll lr = Inr (long_term_loudness out)"
    "np_max (long_term_loudness out) = Inr (loudness out)"
    "np_add sl sr = Inr (short_term_loudness out)"
    by (auto simp: tv2018_outputs_def andthen_Inr_iff)
  show ?thesis
    using inp a b e f by blast
qed

text \<open>
  C4: the second value returned by the short-term integrator is dead. Replacing it by any
  other value changes neither the five results nor whether \<open>tv2018\<close> returns. Whenever
  \<open>tv2018\<close> returns, its short-term totals are the ones of the binaural combiner and of
  nothing else: for every frame \<open>i\<close> of the left short-term matrix, the left and the right
  total at \<open>i\<close> are the second and the third value the combiner returns for the two
  frames \<open>i\<close> (frames the right matrix has beyond the left one keep the total 0); the
  short-term sequence returned is the sum of these two sequences of totals, the long-term
  sequence is the sum of what the long-term integrator returns for them, and the loudness
  is its maximum.
\<close>

theorem second_value_is_dead:
  "tv2018 (replace_second_value g m) filename_sound db_max field_type s fs =
     tv2018 m filename_sound db_max field_type s fs \<and>
   (\<forall>out. tv2018 m filename_sound db_max field_type s fs = Inr out \<longrightarrow>
     (\<exists>p r left right st_left v st_right w sl sr ll lr.
        tv2018_input m filename_sound s fs = Inr (p, r) \<and>
        tv2018_instantaneous m p r db_max field_type = Inr (left, right) \<and>
        instantaneous_specific_loudness_to_short_term_specific_loudness m left =
          Inr (st_left, v) \<and>
        instantaneous_specific_loudness_to_short_term_specific_loudness m right =
          Inr (st_right, w) \<and>
        length sl = length st_left \<and> length sr = length st_right \<and>
        length st_left \<le> length st_right \<and>
        (\<forall>i<length st_left.
           \<exists>b. monaural_specific_loudness_to_binaural_loudness_025 m
                  (st_left ! i) (st_right ! i) = Inr (b, sl ! i, sr ! i)) \<and>
        (\<forall>i. length st_left \<le> i \<and> i < length st_right \<longrightarrow> sr ! i = 0) \<and>
        np_add sl sr = Inr (short_term_loudness out) \<and>
        short_term_loudness_to_long_term_loudness m sl = Inr ll \<and>
        short_term_loudness_to_long_term_loudness m sr = Inr lr \<and>
        np_add ll lr = Inr (long_term_loudness out) \<and>
        np_max (long_term_loudness out) = Inr (loudness out)))"
proof (intro conjI allI impI)
  show "tv2018 (replace_second_value g m) filename_sound db_max field_type s fs =
     tv2018 m filename_sound db_max field_type s fs"
    by (rule replaced_run)
next
  fix out
  assume "tv2018 m filename_sound db_max field_type s fs = Inr out"
  from returned_run_trace [OF this] obtain p r left right sl sr ll lr where
    t: "tv2018_input m filename_sound s fs = Inr (p, r)"
      "tv2018_instantaneous m p r db_max field_type = Inr (left, right)"
      "short_term_loudness_to_long_term_loudness m sl = Inr ll"
      "short_term_loudness_to_long_term_loudness m sr = Inr lr"
      "np_add ll lr = Inr (long_term_loudness out)"
      "np_max (long_term_loudness out) = Inr (loudness out)"
      "np_add sl sr = Inr (short_term_loudness out)"
    and s: "tv2018_short_term m left right = Inr (sl, sr)"
    by blast
  from short_term_trace [OF s] obtain st_left v st_right w where
    u: "instantaneous_specific_loudness_to_short_term_specific_loudness m left =
       Inr (st_left, v)"
     "instantaneous_specific_loudness_to_short_term_specific_loudness m right =
       Inr (st_right, w)"
     "length sl = length st_left" "length sr = length st_right"
     "length st_left \<le> length st_right"
     "\<forall>i<length st_left.
        \<exists>b. monaural_specific_loudness_to_binaural_loudness_025 m (st_left ! i) (st_right ! i) =
             Inr (b, sl ! i, sr ! i)"
     "\<forall>i. length st_left \<le> i \<and> i < length st_right \<longrightarrow> sr ! i = 0"
    by blast
  show "\<exists>p r left right st_left v st_right w sl sr ll lr.
        tv2018_input m filename_sound s fs = Inr (p, r) \<and>
        tv2018_instantaneous m p r db_max field_type = Inr (left, right) \<and>
        instantaneous_specific_loudness_to_short_term_specific_loudness m left =
          Inr (st_left, v) \<and>
        instantaneous_specific_loudness_to_short_term_specific_loudness m right =
          Inr (st_right, w) \<and>
        length sl = length st_left \<and> length sr = length st_right \<and>
        length st_left \<le> length st_right \<and>
        (\<forall>i<length st_left.
           \<exists>b. monaural_specific_loudness_to_binaural_loudness_025 m
                  (st_left ! i) (st_right ! i) = Inr (b, sl ! i, sr ! i)) \<and>
        (\<forall>i. length st_left \<le> i \<and> i < length st_right \<longrightarrow> sr ! i = 0) \<and>
        np_add sl sr = Inr (short_term_loudness out) \<and>
        short_term_loudness_to_long_term_loudness m sl = Inr ll \<and>
        short_term_loudness_to_long_term_loudness m sr = Inr lr \<and>
        np_add ll lr = Inr (long_term_loudness out) \<and>
        np_max (long_term_loudness out) = Inr (loudness out)"
    using t u by blast
qed

theorem second_value_is_dead_witness:
  "tv2018 (replace_second_value (\<lambda>x v. map (\<lambda>y. y + 1) v) toy) ''a.wav'' 100 ''free''
       (Some (NDArray [2, 1] [1, 1])) (Some 32000) =
     Inr \<lparr>loudness = 8, short_term_loudness = [0, 8], long_term_loudness = [0, 8],
          instantaneous_loudness_left = [0, 1], instantaneous_loudness_right = [0, 1]\<rparr> \<and>
   (\<exists>sl sr b c.
      monaural_specific_loudness_to_binaural_loudness_025 toy [0, 0] [0, 0] =
        Inr (b, sl ! 0, sr ! 0) \<and>
      monaural_specific_loudness_to_binaural_loudness_025 toy [1, 3] [2, 2] =
        Inr (c, sl ! 1, sr ! 1) \<and>
      length sl = 2 \<and> length sr = 2 \<and>
      np_add sl sr = Inr [0, 8])"
proof -
  let ?out = "\<lparr>loudness = 8, short_term_loudness = [0, 8], long_term_loudness = [0, 8],
          instantaneous_loudness_left = [0, 1], instantaneous_loudness_right = [0, 1]\<rparr>"
  have run: "tv2018 toy ''a.wav'' 100 ''free'' (Some (NDArray [2, 1] [1, 1])) (Some 32000) =
      Inr ?out"
    by (rule toy_run)
  note inst = second_value_is_dead [of "\<lambda>x v. map (\<lambda>y. y + 1) v" toy "''a.wav''" 100 "''free''"
      "Some (NDArray [2, 1] [1, 1])" "Some 32000"]
  from inst run have first:
    "tv2018 (replace_second_value (\<lambda>x v. map (\<lambda>y. y + 1) v) toy) ''a.wav'' 100 ''free''
       (Some (NDArray [2, 1] [1, 1])) (Some 32000) = Inr ?out"
    by simp
  from inst run obtain p r left right st_left v st_right w sl sr where
    i: "tv2018_instantaneous toy p r 100 ''free'' = Inr (left, right)"
    and cl: "instantaneous_specific_loudness_to_short_term_specific_loudness toy left =
          Inr (st_left, v)"
    and cr: "instantaneous_specific_loudness_to_short_term_specific_loudness toy right =
          Inr (st_right, w)"
    and len: "length sl = length st_left" "length sr = length st_right"
    and each: "\<forall>i<length st_left.
           \<exists>b. monaural_specific_loudness_to_binaural_loudness_025 toy
                  (st_left ! i) (st_right ! i) = Inr (b, sl ! i, sr ! i)"
    and sum: "np_add sl sr = Inr (short_term_loudness ?out)"
    by blast
  from i have "left = [[0, 0], [1, 3]]" "right = [[0, 0], [2, 2]]"
    by (simp_all add: toy_instantaneous)
  with cl cr have st: "st_left = [[0, 0], [1, 3]]" "st_right = [[0, 0], [2, 2]]"
    by (simp_all add: toy_sel)
  have "(0::nat) < length st_left" "(1::nat) < length st_left"
    using st by simp_all
  with each obtain b c where
    "monaural_specific_loudness_to_binaural_loudness_025 toy (st_left ! 0) (st_right ! 0) =
        Inr (b, sl ! 0, sr ! 0)"
    "monaural_specific_loudness_to_binaural_loudness_025 toy (st_left ! 1) (st_right ! 1) =
        Inr (c, sl ! 1, sr ! 1)"
    by blast
  with st have 0: "monaural_specific_loudness_to_binaural_loudness_025 toy [0, 0] [0, 0] =
        Inr (b, sl ! 0, sr ! 0)"
    and 1: "monaural_specific_loudness_to_binaural_loudness_025 toy [1, 3] [2, 2] =
        Inr (c, sl ! 1, sr ! 1)"
    by simp_all
  from len st sum have "length sl = 2" "length sr = 2" "np_add sl sr = Inr [0, 8]"
    by simp_all
  with first 0 1 show ?thesis by blast
qed

subsection \<open>The file name\<close>

lemma toy_stages_any:
  "tv2018_stages toy filename_sound s fs db_max field_type =
     andthen (py_print toy filename_sound) (\<lambda>_.
     andthen (py_print toy field_type) (\<lambda>_.
     Inr \<lparr>loudness = 8, short_term_loudness = [0, 8], long_term_loudness = [0, 8],
          instantaneous_loudness_left = [0, 1], instantaneous_loudness_right = [0, 1]\<rparr>))"
  by (cases "py_print toy filename_sound"; cases "py_print toy field_type")
     (simp_all add: tv2018_stages_def toy_instantaneous tv2018_short_term_def
      tv2018_long_term_def tv2018_outputs_def tv2018_report_def np_add_def
      np_max_def row_sums_div_4_def toy_sel upt_rec)

lemma toy_run_any:
  "tv2018 toy filename_sound db_max field_type (Some (NDArray [2, 1] [1, 1])) (Some 32000) =
     andthen (py_print toy filename_sound) (\<lambda>_.
     andthen (py_print toy field_type) (\<lambda>_.
     Inr \<lparr>loudness = 8, short_term_loudness = [0, 8], long_term_loudness = [0, 8],
          instantaneous_loudness_left = [0, 1], instantaneous_loudness_right = [0, 1]\<rparr>))"
  by (simp add: tv2018_def tv2018_input_def tv2018_load_def tv2018_resample_def np_pad_def
      toy_stages_any)

text \<open>
  C9, as stated: with the samples and the rate supplied, two runs that differ only in the
  file name return identical results. They need not: the file name is printed before the
  results are returned (line 136), and on a console that encodes ASCII a run with the
  name \<open>a.wav\<close> returns its five results while the same run with a name that starts with
  the character \<open>0xE9\<close> raises.
\<close>

theorem unprintable_filename_raises:
  "tv2018 toy ''a.wav'' 100 ''free'' (Some (NDArray [2, 1] [1, 1])) (Some 32000) =
     Inr \<lparr>loudness = 8, short_term_loudness = [0, 8], long_term_loudness = [0, 8],
          instantaneous_loudness_left = [0, 1], instantaneous_loudness_right = [0, 1]\<rparr> \<and>
   tv2018 toy (CHR 0xE9 # ''.wav'') 100 ''free'' (Some (NDArray [2, 1] [1, 1])) (Some 32000) =
     Inl UnicodeEncodeError"
  unfolding toy_run_any by (simp add: py_print_def toy_sel)

lemma report_same_console:
  "stdout_encodes m filename_1 = stdout_encodes m filename_2 \<Longrightarrow>
   tv2018_report m filename_1 field_type out = tv2018_report m filename_2 field_type out"
  by (simp add: tv2018_report_def py_print_def)

lemma stages_same_console:
  assumes "stdout_encodes m filename_1 = stdout_encodes m filename_2"
  shows "tv2018_stages m filename_1 s fs db_max field_type =
         tv2018_stages m filename_2 s fs db_max field_type"
  unfolding tv2018_stages_def report_same_console [OF assms] by (rule refl)

lemma stages_return_printed:
  assumes "tv2018_stages m filename_sound s fs db_max field_type = Inr out"
  shows "stdout_encodes m filename_sound"
proof -
  from assms obtain u where "py_print m filename_sound = Inr u"
    by (auto simp: tv2018_stages_def tv2018_report_def andthen_Inr_iff)
  then show ?thesis by (simp add: py_print_def split: if_splits)
qed

lemma supplied_run:
  "tv2018 m filename_sound db_max field_type (Some s) (Some fs) =
     andthen (andthen (tv2018_resample m s fs) (\<lambda>(s2, fs2).
              andthen (np_pad s2) (\<lambda>s3. Inr (s3, fs2))))
       (\<lambda>(s', fs'). tv2018_stages m filename_sound s' fs' db_max field_type)"
  by (simp add: tv2018_def tv2018_input_def tv2018_load_def)

text \<open>
  C9, amended: with the samples and the rate supplied, the file name is only printed. Two
  runs that differ only in the file name end identically (the same five results, or the
  same exception) whenever the console can encode both names or neither; whenever both
  return, they return identical results; and a run whose file name the console cannot
  encode returns nothing.
\<close>

theorem filename_is_only_printed:
  "(stdout_encodes m filename_1 = stdout_encodes m filename_2 \<longrightarrow>
      tv2018 m filename_1 db_max field_type (Some s) (Some fs) =
      tv2018 m filename_2 db_max field_type (Some s) (Some fs)) \<and>
   (\<forall>out_1 out_2.
      tv2018 m filename_1 db_max field_type (Some s) (Some fs) = Inr out_1 \<and>
      tv2018 m filename_2 db_max field_type (Some s) (Some fs) = Inr out_2 \<longrightarrow>
      out_1 = out_2) \<and>
   (\<not> stdout_encodes m filename_1 \<longrightarrow>
      (\<exists>e. tv2018 m filename_1 db_max field_type (Some s) (Some fs) = Inl e))"
proof (intro conjI impI allI)
  assume same: "stdout_encodes m filename_1 = stdout_encodes m filename_2"
  have "tv2018_stages m filename_1 = tv2018_stages m filename_2"
    by (intro ext) (rule stages_same_console [OF same])
  then show "tv2018 m filename_1 db_max field_type (Some s) (Some fs) =
      tv2018 m filename_2 db_max field_type (Some s) (Some fs)"
    by (simp add: supplied_run)
next
  fix out_1 out_2
  assume both: "tv2018 m filename_1 db_max field_type (Some s) (Some fs) = Inr out_1 \<and>
      tv2018 m filename_2 db_max field_type (Some s) (Some fs) = Inr out_2"
  then obtain p r p' r' where
    1: "tv2018_stages m filename_1 p r db_max field_type = Inr out_1" and
    2: "tv2018_stages m filename_2 p' r' db_max field_type = Inr out_2"
    by (auto simp: tv2018_def andthen_Inr_iff)
  have "stdout_encodes m filename_1" "stdout_encodes m filename_2"
    using 1 2 by (auto dest: stages_return_printed)
  then have "tv2018_stages m filename_1 = tv2018_stages m filename_2"
    by (intro ext) (rule stages_same_console, simp)
  then have eq: "tv2018 m filename_1 db_max field_type (Some s) (Some fs) =
      tv2018 m filename_2 db_max field_type (Some s) (Some fs)"
    by (simp add: supplied_run)
  have "Inr out_1 = tv2018 m filename_1 db_max field_type (Some s) (Some fs)"
    using both by simp
  also note eq
  also have "tv2018 m filename_2 db_max field_type (Some s) (Some fs) = Inr out_2"
    using both by simp
  finally show "out_1 = out_2" by simp
next
  assume no: "\<not> stdout_encodes m filename_1"
  show "\<exists>e. tv2018 m filename_1 db_max field_type (Some s) (Some fs) = Inl e"
  proof (cases "tv2018 m filename_1 db_max field_type (Some s) (Some fs)")
    case (Inl e)
    then show ?thesis by blast
  next
    case (Inr out)
    then obtain p r where "tv2018_stages m filename_1 p r db_max field_type = Inr out"
      by (auto simp: tv2018_def andthen_Inr_iff)
    with no show ?thesis by (auto dest: stages_return_printed)
  qed
qed

theorem filename_is_only_printed_witness:
  "tv2018 toy ''a.wav'' 100 ''free'' (Some (NDArray [2, 1] [1, 1])) (Some 32000) =
   tv2018 toy ''b.wav'' 100 ''free'' (Some (NDArray [2, 1] [1, 1])) (Some 32000) \<and>
   tv2018 toy ''b.wav'' 100 ''free'' (Some (NDArray [2, 1] [1, 1])) (Some 32000) =
     Inr \<lparr>loudness = 8, short_term_loudness = [0, 8], long_term_loudness = [0, 8],
          instantaneous_loudness_left = [0, 1], instantaneous_loudness_right = [0, 1]\<rparr> \<and>
   (\<exists>e. tv2018 toy (CHR 0xE9 # ''.wav'') 100 ''free''
          (Some (NDArray [2, 1] [1, 1])) (Some 32000) = Inl e)"
proof -
  have a: "stdout_encodes toy ''a.wav'' = stdout_encodes toy ''b.wav''"
    by (simp add: toy_sel)
  have b: "\<not> stdout_encodes toy (CHR 0xE9 # ''.wav'')"
    by (simp add: toy_sel)
  have c: "tv2018 toy ''b.wav'' 100 ''free'' (Some (NDArray [2, 1] [1, 1])) (Some 32000) =
     Inr \<lparr>loudness = 8, short_term_loudness = [0, 8], long_term_loudness = [0, 8],
          instantaneous_loudness_left = [0, 1], instantaneous_loudness_right = [0, 1]\<rparr>"
    unfolding toy_run_any by (simp add: py_print_def toy_sel)
  from filename_is_only_printed [of toy "''a.wav''" "''b.wav''" 100 "''free''" "NDArray [2, 1] [1, 1]" 32000]
    filename_is_only_printed [of toy "CHR 0xE9 # ''.wav''" "''b.wav''" 100 "''free''" "NDArray [2, 1] [1, 1]" 32000]
    a b c
  show ?thesis by blast
qed

subsection \<open>Padding\<close>

text \<open>
  C5, as the spec has it: the signal arrives padded and the pipeline adds no padding of
  its own before the transform to the cochlea. It does: a signal of one sample that the
  caller has already padded with 2048 zeros at each end is padded once more, and the
  transform receives 8193 samples.
\<close>

theorem padded_signal_is_padded_again:
  "tv2018_input toy ''a.wav''
     (Some (NDArray [4097, 1] (replicate 2048 0 @ [1] @ replicate 2048 0))) (Some 32000) =
   Inr (NDArray [8193, 1]
          (replicate 2048 0 @ (replicate 2048 0 @ [1] @ replicate 2048 0) @ replicate 2048 0),
        32000)"
  by (simp add: tv2018_input_def tv2018_load_def tv2018_resample_def np_pad_def)

text \<open>
  C5, amended: \<open>tv2018\<close> itself pads the signal it is given. For a two-dimensional signal
  of \<open>n\<close> samples and \<open>c\<close> channels at 32 kHz, everything after the padding, which starts
  with the transform to the cochlea, runs on that signal with 2048 rows of zeros (64 ms
  at 32 kHz) added before and after, and on nothing else.
\<close>

theorem tv2018_pads_the_signal:
  "tv2018 m filename_sound db_max field_type (Some (NDArray [n, c] xs)) (Some 32000) =
     tv2018_stages m filename_sound
       (NDArray [n + 4096, c] (replicate (2048 * c) 0 @ xs @ replicate (2048 * c) 0))
       32000 db_max field_type"
  by (simp add: tv2018_def tv2018_input_def tv2018_load_def tv2018_resample_def np_pad_def
      add.commute)

subsection \<open>One-dimensional signals\<close>

text \<open>
  C10: the padding needs a two-dimensional signal. On a one-dimensional sequence of
  samples the call of \<open>np.pad\<close> raises, so \<open>tv2018\<close> at 32 kHz raises that error whatever
  the collaborators are: none of the stages has run. At another rate the same holds as
  long as the resampler returns a one-dimensional array for a one-dimensional one:
  \<open>tv2018\<close> raises within its input section. The same samples with the shape \<open>(n, 1)\<close> are
  padded.
\<close>

theorem one_dimensional_signal_is_refused:
  "np_pad (NDArray [n] xs) = Inl (ValueError Pad_width) \<and>
   tv2018 m filename_sound db_max field_type (Some (NDArray [n] xs)) (Some 32000) =
     Inl (ValueError Pad_width) \<and>
   ((\<forall>num a. resample m (NDArray [n] xs) num = Inr a \<longrightarrow> length (shape a) = 1) \<longrightarrow>
    (\<exists>e. tv2018_input m filename_sound (Some (NDArray [n] xs)) (Some fs) = Inl e \<and>
         tv2018 m filename_sound db_max field_type (Some (NDArray [n] xs)) (Some fs) = Inl e)) \<and>
   np_pad (NDArray [n, 1] xs) =
     Inr (NDArray [n + 4096, 1] (replicate 2048 0 @ xs @ replicate 2048 0))"
proof (intro conjI impI)
  show pad: "np_pad (NDArray [n] xs) = Inl (ValueError Pad_width)"
    by (simp add: np_pad_def)
  show "tv2018 m filename_sound db_max field_type (Some (NDArray [n] xs)) (Some 32000) =
     Inl (ValueError Pad_width)"
    by (simp add: tv2018_def tv2018_input_def tv2018_load_def tv2018_resample_def pad)
  show "np_pad (NDArray [n, 1] xs) =
     Inr (NDArray [n + 4096, 1] (replicate 2048 0 @ xs @ replicate 2048 0))"
    by (simp add: np_pad_def)
next
  assume one: "\<forall>num a. resample m (NDArray [n] xs) num = Inr a \<longrightarrow> length (shape a) = 1"
  have pad1: "np_pad a = Inl (ValueError Pad_width)" if "length (shape a) = 1" for a
  proof -
    from that obtain k where "shape a = [k]"
      by (cases "shape a") auto
    then show ?thesis by (simp add: np_pad_def)
  qed
  have "\<exists>e. tv2018_input m filename_sound (Some (NDArray [n] xs)) (Some fs) = Inl e"
  proof (cases "fs = 32000")
    case True
    then show ?thesis
      by (simp add: tv2018_input_def tv2018_load_def tv2018_resample_def np_pad_def)
  next
    case False
    show ?thesis
    proof (cases "py_int_truediv (32000 * int n) fs")
      case (Inl e)
      then show ?thesis
        using False
        by (simp add: tv2018_input_def tv2018_load_def tv2018_resample_def py_len_def)
    next
      case num: (Inr num)
      show ?thesis
      proof (cases "resample m (NDArray [n] xs) num")
        case (Inl e)
        then show ?thesis
          using False num
          by (simp add: tv2018_input_def tv2018_load_def tv2018_resample_def py_len_def)
      next
        case (Inr a)
        with one have "length (shape a) = 1" by blast
        then have "np_pad a = Inl (ValueError Pad_width)" by (rule pad1)
        then show ?thesis
          using False num Inr
          by (simp add: tv2018_input_def tv2018_load_def tv2018_resample_def py_len_def)
      qed
    qed
  qed
  then show "\<exists>e. tv2018_input m filename_sound (Some (NDArray [n] xs)) (Some fs) = Inl e \<and>
         tv2018 m filename_sound db_max field_type (Some (NDArray [n] xs)) (Some fs) = Inl e"
    by (auto simp: tv2018_def)
qed

theorem one_dimensional_signal_is_refused_witness:
  "tv2018 toy ''a.wav'' 100 ''free'' (Some (NDArray [2] [1, 1])) (Some 16000) =
     Inl (ValueError Pad_width) \<and>
   tv2018 toy ''a.wav'' 100 ''free'' (Some (NDArray [2] [1, 1])) (Some 32000) =
     Inl (ValueError Pad_width) \<and>
   np_pad (NDArray [2, 1] [1, 1]) =
     Inr (NDArray [4098, 1] (replicate 2048 0 @ [1, 1] @ replicate 2048 0))"
proof -
  have one: "\<forall>num a. resample toy (NDArray [2] [1, 1]) num = Inr a \<longrightarrow> length (shape a) = 1"
    by (auto simp: toy_sel)
  have run: "tv2018_input toy ''a.wav'' (Some (NDArray [2] [1, 1])) (Some 16000) =
      Inl (ValueError Pad_width)"
    by (simp add: tv2018_input_def tv2018_load_def tv2018_resample_def py_len_def
        py_int_truediv_def toy_sel np_pad_def)
  from one_dimensional_signal_is_refused [of 2 "[1, 1]" toy "''a.wav''" 100 "''free''" 16000] one run
  show ?thesis by auto
qed

subsection \<open>Non-negative results\<close>

lemma nonneg_update: "nonneg xs \<Longrightarrow> 0 \<le> v \<Longrightarrow> nonneg (xs[i := v])"
  unfolding nonneg_def using set_update_subset_insert [of xs i v] by auto

lemma nonneg_slice_32: "nonneg_matrix x \<Longrightarrow> nonneg_matrix (slice_32 x)"
  unfolding nonneg_matrix_def slice_32_def
  by (meson in_set_dropD in_set_takeD)

lemma nonneg_zero_first_row:
  "nonneg_matrix x \<Longrightarrow> zero_first_row x = Inr y \<Longrightarrow> nonneg_matrix y"
  by (cases x) (auto simp: zero_first_row_def nonneg_matrix_def nonneg_def)

lemma nonneg_instantaneous:
  assumes "stages_keep_nonneg m"
    and "tv2018_instantaneous m s fs db_max field_type = Inr (left, right)"
  shows "nonneg_matrix left \<and> nonneg_matrix right"
proof -
  from assms(2) obtain c l r where
    b: "filtered_signal_to_monaural_instantaneous_specific_loudness m c fs db_max = Inr (l, r)"
    and zl: "zero_first_row (slice_32 l) = Inr left"
    and zr: "zero_first_row (slice_32 r) = Inr right"
    by (auto simp: tv2018_instantaneous_def andthen_Inr_iff)
  from assms(1) b have "nonneg_matrix l" "nonneg_matrix r"
    unfolding stages_keep_nonneg_def by blast+
  then show ?thesis
    using zl zr by (blast intro: nonneg_zero_first_row nonneg_slice_32)
qed

lemma nonneg_binaural_frames:
  assumes d: "\<And>l r b tl tr. nonneg l \<Longrightarrow> nonneg r \<Longrightarrow>
        monaural_specific_loudness_to_binaural_loudness_025 m l r = Inr (b, tl, tr) \<Longrightarrow>
        0 \<le> tl \<and> 0 \<le> tr"
    and l: "nonneg_matrix left" and r: "nonneg_matrix right"
  shows "\<forall>i\<in>set is. i < length left \<Longrightarrow> nonneg sl \<Longrightarrow> nonneg sr \<Longrightarrow>
         binaural_frames m left right is (sl, sr) = Inr (sl', sr') \<Longrightarrow>
         nonneg sl' \<and> nonneg sr'"
proof (induction "is" arbitrary: sl sr)
  case Nil
  then show ?case by simp
next
  case (Cons i "is")
  from Cons.prems(1) have il: "i < length left" by simp
  from Cons.prems(4) have ir: "i < length right"
    by (auto split: if_splits)
  with Cons.prems(4) obtain b tl tr where
    call: "monaural_specific_loudness_to_binaural_loudness_025 m (left ! i) (right ! i) =
             Inr (b, tl, tr)"
    and rest: "binaural_frames m left right is (sl[i := tl], sr[i := tr]) = Inr (sl', sr')"
    by (auto simp: andthen_Inr_iff)
  have "nonneg (left ! i)" "nonneg (right ! i)"
    using l r il ir by (auto simp: nonneg_matrix_def)
  with call have "0 \<le> tl" "0 \<le> tr" using d by blast+
  then have "nonneg (sl[i := tl])" "nonneg (sr[i := tr])"
    using Cons.prems(2,3) by (auto intro: nonneg_update)
  with Cons.IH [OF _ _ _ rest] Cons.prems(1) show ?case by simp
qed

lemma nonneg_short_term:
  assumes "stages_keep_nonneg m"
    and "nonneg_matrix left" and "nonneg_matrix right"
    and "tv2018_short_term m left right = Inr (sl, sr)"
  shows "nonneg sl \<and> nonneg sr"
proof -
  from assms(4) obtain stl v str w where
    cl: "instantaneous_specific_loudness_to_short_term_specific_loudness m left = Inr (stl, v)"
    and cr: "instantaneous_specific_loudness_to_short_term_specific_loudness m right = Inr (str, w)"
    and loop: "binaural_frames m stl str [0..<length stl]
       (replicate (length stl) 0, replicate (length str) 0) = Inr (sl, sr)"
    by (auto simp: tv2018_short_term_def andthen_Inr_iff)
  from assms(1-3) cl cr have n: "nonneg_matrix stl" "nonneg_matrix str"
    unfolding stages_keep_nonneg_def by blast+
  have d: "0 \<le> tl \<and> 0 \<le> tr"
    if "nonneg l" "nonneg r"
      "monaural_specific_loudness_to_binaural_loudness_025 m l r = Inr (b, tl, tr)"
    for l r b tl tr
    using assms(1) that unfolding stages_keep_nonneg_def by blast
  have z: "nonneg (replicate k 0)" for k by (simp add: nonneg_def)
  show ?thesis
    by (rule nonneg_binaural_frames [OF d n _ z z loop]) auto
qed

lemma nonneg_np_add: "nonneg xs \<Longrightarrow> nonneg ys \<Longrightarrow> np_add xs ys = Inr zs \<Longrightarrow> nonneg zs"
proof -
  assume x: "nonneg xs" and y: "nonneg ys" and a: "np_add xs ys = Inr zs"
  have h: "0 \<le> hd xs" if "length xs = 1" using that x by (cases xs) (auto simp: nonneg_def)
  have h': "0 \<le> hd ys" if "length ys = 1" using that y by (cases ys) (auto simp: nonneg_def)
  have m2: "nonneg (map2 (+) xs ys)"
    using x y by (auto simp: nonneg_def dest!: set_zip_leftD set_zip_rightD
        elim!: in_set_zipE)
  show ?thesis
    using a x y h h' m2 by (auto simp: np_add_def nonneg_def split: if_splits)
qed

lemma nonneg_np_max: "nonneg xs \<Longrightarrow> np_max xs = Inr v \<Longrightarrow> 0 \<le> v"
  by (auto simp: np_max_def nonneg_def split: if_splits)

lemma nonneg_row_sums: "nonneg_matrix x \<Longrightarrow> nonneg (row_sums_div_4 x)"
  by (auto simp: nonneg_matrix_def nonneg_def row_sums_div_4_def intro!: sum_list_nonneg)

lemma toy_keeps_nonneg: "stages_keep_nonneg toy"
  unfolding stages_keep_nonneg_def toy_sel
  by (auto simp: nonneg_matrix_def nonneg_def intro!: sum_list_nonneg)

text \<open>
  C7: whenever \<open>tv2018\<close> returns, the loudness is non-negative and so is every element of
  the short-term sequence, of the long-term sequence and of the two instantaneous
  sequences, provided the stages keep their values non-negative as the spec says they do.
\<close>

theorem loudness_values_are_nonnegative:
  assumes "stages_keep_nonneg m"
    and "tv2018 m filename_sound db_max field_type s fs = Inr out"
  shows "0 \<le> loudness out \<and>
         (\<forall>v\<in>set (short_term_loudness out). 0 \<le> v) \<and>
         (\<forall>v\<in>set (long_term_loudness out). 0 \<le> v) \<and>
         (\<forall>v\<in>set (instantaneous_loudness_left out). 0 \<le> v) \<and>
         (\<forall>v\<in>set (instantaneous_loudness_right out). 0 \<le> v)"
proof -
  from assms(2) obtain p r where
    st: "tv2018_stages m filename_sound p r db_max field_type = Inr out"
    by (auto simp: tv2018_def andthen_Inr_iff)
  from st obtain left right sl sr ll lr where
    a: "tv2018_instantaneous m p r db_max field_type = Inr (left, right)"
    and b: "tv2018_short_term m left right = Inr (sl, sr)"
    and c: "tv2018_long_term m sl sr = Inr (ll, lr)"
    and d: "tv2018_outputs left right sl sr ll lr = Inr out"
    by (auto simp: tv2018_stages_def andthen_Inr_iff)
  from nonneg_instantaneous [OF assms(1) a]
  have m: "nonneg_matrix left" "nonneg_matrix right" by simp_all
  from nonneg_short_term [OF assms(1) m b] have s: "nonneg sl" "nonneg sr" by simp_all
  from c have "short_term_loudness_to_long_term_loudness m sl = Inr ll"
    "short_term_loudness_to_long_term_loudness m sr = Inr lr"
    by (auto simp: tv2018_long_term_def andthen_Inr_iff)
  with assms(1) s have l: "nonneg ll" "nonneg lr"
    unfolding stages_keep_nonneg_def by blast+
  from d obtain lt mx st' where
    f: "np_add ll lr = Inr lt" and g: "np_max lt = Inr mx" and f': "np_add sl sr = Inr st'" and
    h: "out = \<lparr>loudness = mx, short_term_loudness = st', long_term_loudness = lt,
          instantaneous_loudness_left = row_sums_div_4 left,
          instantaneous_loudness_right = row_sums_div_4 right\<rparr>"
    by (auto simp: tv2018_outputs_def andthen_Inr_iff)
  have 1: "nonneg lt" using l f by (rule nonneg_np_add)
  have 2: "0 \<le> mx" using 1 g by (rule nonneg_np_max)
  have 3: "nonneg st'" using s f' by (rule nonneg_np_add)
  have 4: "nonneg (row_sums_div_4 left)" "nonneg (row_sums_div_4 right)"
    using m by (simp_all add: nonneg_row_sums)
  show ?thesis
    using 1 2 3 4 by (simp add: h nonneg_def)
qed

theorem loudness_values_are_nonnegative_witness:
  "0 \<le> loudness \<lparr>loudness = 8, short_term_loudness = [0, 8], long_term_loudness = [0, 8],
          instantaneous_loudness_left = [0, 1], instantaneous_loudness_right = [0, 1]\<rparr> \<and>
   tv2018 toy ''a.wav'' 100 ''free'' (Some (NDArray [2, 1] [1, 1])) (Some 32000) =
     Inr \<lparr>loudness = 8, short_term_loudness = [0, 8], long_term_loudness = [0, 8],
          instantaneous_loudness_left = [0, 1], instantaneous_loudness_right = [0, 1]\<rparr>"
  using loudness_values_are_nonnegative [OF toy_keeps_nonneg toy_run [of 100]] toy_run
  by simp

end
